theory Spec2Isabelle
  imports Main "HOL-Library.Word" "HOL-Library.Sublist"
begin

section \<open>Data model (lucideicon.hpp)\<close>

text \<open>
  The C++ \<open>int\<close> fields are 32-bit machine integers; \<open>std::string\<close> is a byte
  sequence, here a \<open>char list\<close>.
\<close>

type_synonym cint = "32 word"

text \<open>
  \<open>struct IconConfig\<close>. The convenience field \<open>size\<close> is written \<open>size'\<close>, since
  \<open>size\<close> is a constant of HOL.
\<close>

record IconConfig =
  width :: cint
  height :: cint
  size' :: cint
  stroke :: string
  strokeWidth :: cint
  strokeLinecap :: string
  strokeLinejoin :: string
  fill :: string
  color :: string
  className :: string
  style :: string

text \<open>\<open>IconConfig{}\<close>: every field at its default member initialiser.\<close>

definition IconConfig_default :: IconConfig where
  "IconConfig_default =
     \<lparr>width = 24, height = 24, size' = 24, stroke = ''currentColor'', strokeWidth = 2,
      strokeLinecap = ''round'', strokeLinejoin = ''round'', fill = ''none'',
      color = ''currentColor'', className = [], style = []\<rparr>"

definition setSize :: "cint \<Rightarrow> IconConfig \<Rightarrow> IconConfig" where
  "setSize s c = c\<lparr>size' := s, width := s, height := s\<rparr>"

definition setColor :: "string \<Rightarrow> IconConfig \<Rightarrow> IconConfig" where
  "setColor c cfg = cfg\<lparr>color := c, stroke := c\<rparr>"

text \<open>
  \<open>class Icon\<close>: the two private members \<open>name_\<close> and \<open>pathData_\<close>, fixed by the
  constructor. A member \<open>m_\<close> of class \<open>K\<close> is written \<open>K_m\<close> throughout, as a
  name cannot end with an underscore here; a method \<open>K::f\<close> is \<open>K_f\<close>.
\<close>

record Icon =
  Icon_name :: string
  Icon_pathData :: string

definition Icon_Icon :: "string \<Rightarrow> string \<Rightarrow> Icon" where
  "Icon_Icon name pathData = \<lparr>Icon_name = name, Icon_pathData = pathData\<rparr>"

definition Icon_getName :: "Icon \<Rightarrow> string" where
  "Icon_getName ic = Icon_name ic"

definition Icon_getPathData :: "Icon \<Rightarrow> string" where
  "Icon_getPathData ic = Icon_pathData ic"

text \<open>
  \<open>class IconRegistry\<close>: the member \<open>icons_\<close>, an unordered map from names to icon
  handles. Only \<open>registerIcon\<close> writes to it, and it stores the result of
  \<open>std::make_shared\<close>, so a stored handle is never null: the map holds icons.
\<close>

record IconRegistry =
  IconRegistry_icons :: "string \<rightharpoonup> Icon"

text \<open>The private constructor \<open>IconRegistry() = default\<close>: no icon is registered.\<close>

definition IconRegistry_IconRegistry :: IconRegistry where
  "IconRegistry_IconRegistry = \<lparr>IconRegistry_icons = Map.empty\<rparr>"


section \<open>Stream output of an int\<close>

text \<open>
  \<open>operator<<\<close> of a \<open>std::stringstream\<close> on an \<open>int\<close>, in the stream's initial
  state (decimal, no padding, classic locale): a minus sign for a negative value, then
  the decimal digits without leading zeros.
\<close>

definition digit_chars :: string where
  "digit_chars = ''0123456789''"

function dec_nat :: "nat \<Rightarrow> string" where
  "dec_nat n = (if n < 10 then [digit_chars ! n]
                else dec_nat (n div 10) @ [digit_chars ! (n mod 10)])"
  by pat_completeness auto
termination
  by (relation "measure id") auto

declare dec_nat.simps [simp del]

definition ostream_int :: "cint \<Rightarrow> string" where
  "ostream_int i = (if sint i < 0 then CHR ''-'' # dec_nat (nat (- sint i))
                    else dec_nat (nat (sint i)))"

text \<open>
  Reading a decimal numeral back, to say which integer a printed text denotes: the digits
  are read most significant first, and a leading minus sign negates.
\<close>

definition is_digit :: "char \<Rightarrow> bool" where
  "is_digit c = (c \<in> set digit_chars)"

definition digit_value :: "char \<Rightarrow> nat" where
  "digit_value c = of_char c - of_char CHR ''0''"

definition read_nat :: "string \<Rightarrow> nat" where
  "read_nat s = foldl (\<lambda>acc c. 10 * acc + digit_value c) 0 s"

definition read_int :: "string \<Rightarrow> int" where
  "read_int s = (case s of [] \<Rightarrow> 0
                 | c # r \<Rightarrow> if c = CHR ''-'' then - int (read_nat r) else int (read_nat s))"

section \<open>Icon (lucideicon.cpp)\<close>

text \<open>
  \<open>Icon::buildSVG\<close>: the string stream is the string written so far, each
  \<open>ss << x\<close> appends to it, in the order of the source.
\<close>

definition Icon_buildSVG :: "Icon \<Rightarrow> IconConfig \<Rightarrow> string" where
  \<open>Icon_buildSVG ic config =
     (let ss = [];
          ss = ss @ ''<svg'';
          ss = ss @ '' xmlns="http://www.w3.org/2000/svg"'';
          ss = ss @ '' width="'' @ ostream_int (width config) @ ''"'';
          ss = ss @ '' height="'' @ ostream_int (height config) @ ''"'';
          ss = ss @ '' viewBox="0 0 24 24"'';
          ss = ss @ '' fill="'' @ fill config @ ''"'';
          ss = ss @ '' stroke="'' @ stroke config @ ''"'';
          ss = ss @ '' stroke-width="'' @ ostream_int (strokeWidth config) @ ''"'';
          ss = ss @ '' stroke-linecap="'' @ strokeLinecap config @ ''"'';
          ss = ss @ '' stroke-linejoin="'' @ strokeLinejoin config @ ''"'';
          ss = (if className config \<noteq> [] then ss @ '' class="'' @ className config @ ''"''
                else ss);
          ss = (if style config \<noteq> [] then ss @ '' style="'' @ style config @ ''"''
                else ss);
          ss = ss @ ''>'';
          ss = ss @ Icon_pathData ic;
          ss = ss @ ''</svg>''
      in ss)\<close>

definition Icon_toSVG :: "Icon \<Rightarrow> IconConfig \<Rightarrow> string" where
  "Icon_toSVG ic config = Icon_buildSVG ic config"

section \<open>IconRegistry (lucideicon.cpp)\<close>

text \<open>
  The registry is one object for the whole process (\<open>getInstance\<close>), so every
  operation that reaches it takes the registry and returns it with its result.
\<close>

definition IconRegistry_registerIcon ::
    "string \<Rightarrow> string \<Rightarrow> IconRegistry \<Rightarrow> IconRegistry" where
  "IconRegistry_registerIcon name pathData reg =
     reg\<lparr>IconRegistry_icons := (IconRegistry_icons reg)(name \<mapsto> Icon_Icon name pathData)\<rparr>"

text \<open>\<open>getIcon\<close>: a null handle is \<open>None\<close>.\<close>

definition IconRegistry_getIcon ::
    "string \<Rightarrow> IconRegistry \<Rightarrow> Icon option \<times> IconRegistry" where
  "IconRegistry_getIcon name reg =
     (case IconRegistry_icons reg name of Some ic \<Rightarrow> (Some ic, reg) | None \<Rightarrow> (None, reg))"

definition IconRegistry_hasIcon :: "string \<Rightarrow> IconRegistry \<Rightarrow> bool \<times> IconRegistry" where
  "IconRegistry_hasIcon name reg = (IconRegistry_icons reg name \<noteq> None, reg)"

definition IconRegistry_generateSVG ::
    "string \<Rightarrow> IconConfig \<Rightarrow> IconRegistry \<Rightarrow> string \<times> IconRegistry" where
  "IconRegistry_generateSVG name config reg =
     (let (icon, reg) = IconRegistry_getIcon name reg
      in (case icon of Some ic \<Rightarrow> (Icon_toSVG ic config, reg) | None \<Rightarrow> ([], reg)))"

section \<open>IconWrapper (iconwrapper.cpp)\<close>

text \<open>
  \<open>class IconWrapper\<close>: the handle \<open>icon_\<close> (\<open>None\<close> when null) and the wrapper's own
  configuration \<open>config_\<close>. The icon behind a handle is immutable, so the handle is
  modelled by the icon it points to.
\<close>

record IconWrapper =
  IconWrapper_icon :: "Icon option"
  IconWrapper_config :: IconConfig



text \<open>
  The fluent setters return \<open>*this\<close>: the model returns the wrapper after the
  assignment, which is the object the next call of a chain acts on.
\<close>

definition IconWrapper_size_wh :: "cint \<Rightarrow> cint \<Rightarrow> IconWrapper \<Rightarrow> IconWrapper" where
  "IconWrapper_size_wh w h this =
     this\<lparr>IconWrapper_config := (IconWrapper_config this)\<lparr>width := w, height := h\<rparr>\<rparr>"

definition IconWrapper_size :: "cint \<Rightarrow> IconWrapper \<Rightarrow> IconWrapper" where
  "IconWrapper_size s this = IconWrapper_size_wh s s this"

definition IconWrapper_stroke :: "string \<Rightarrow> IconWrapper \<Rightarrow> IconWrapper" where
  "IconWrapper_stroke c this =
     this\<lparr>IconWrapper_config := (IconWrapper_config this)\<lparr>stroke := c\<rparr>\<rparr>"

definition IconWrapper_strokeWidth :: "cint \<Rightarrow> IconWrapper \<Rightarrow> IconWrapper" where
  "IconWrapper_strokeWidth w this =
     this\<lparr>IconWrapper_config := (IconWrapper_config this)\<lparr>strokeWidth := w\<rparr>\<rparr>"

definition IconWrapper_fill :: "string \<Rightarrow> IconWrapper \<Rightarrow> IconWrapper" where
  "IconWrapper_fill c this =
     this\<lparr>IconWrapper_config := (IconWrapper_config this)\<lparr>fill := c\<rparr>\<rparr>"

definition IconWrapper_className :: "string \<Rightarrow> IconWrapper \<Rightarrow> IconWrapper" where
  "IconWrapper_className cls this =
     this\<lparr>IconWrapper_config := (IconWrapper_config this)\<lparr>className := cls\<rparr>\<rparr>"

definition IconWrapper_style :: "string \<Rightarrow> IconWrapper \<Rightarrow> IconWrapper" where
  "IconWrapper_style styleStr this =
     this\<lparr>IconWrapper_config := (IconWrapper_config this)\<lparr>style := styleStr\<rparr>\<rparr>"

definition IconWrapper_render :: "IconWrapper \<Rightarrow> string" where
  "IconWrapper_render this =
     (case IconWrapper_icon this of None \<Rightarrow> []
      | Some ic \<Rightarrow> Icon_toSVG ic (IconWrapper_config this))"

definition IconWrapper_getConfig :: "IconWrapper \<Rightarrow> IconConfig" where
  "IconWrapper_getConfig this = IconWrapper_config this"

definition IconWrapper_reset :: "IconWrapper \<Rightarrow> IconWrapper" where
  "IconWrapper_reset this = this\<lparr>IconWrapper_config := IconConfig_default\<rparr>"


definition IconWrapper_color :: "string \<Rightarrow> IconWrapper \<Rightarrow> IconWrapper" where
  "IconWrapper_color c this =
     this\<lparr>IconWrapper_config := (IconWrapper_config this)\<lparr>color := c, stroke := c, fill := c\<rparr>\<rparr>"



text \<open>
  \<open>renderMultiple\<close>: the range-for loop over \<open>iconNames\<close>, with \<open>results\<close> the vector
  built so far and \<open>push_back\<close> appending at its end.
\<close>

fun renderMultiple_loop ::
    "string list \<Rightarrow> IconConfig \<Rightarrow> string list \<Rightarrow> IconRegistry
      \<Rightarrow> string list \<times> IconRegistry" where
  "renderMultiple_loop [] config results reg = (results, reg)"
| "renderMultiple_loop (iconName # rest) config results reg =
     (let (icon, reg) = IconRegistry_getIcon iconName reg
      in case icon of
           Some ic \<Rightarrow> renderMultiple_loop rest config (results @ [Icon_toSVG ic config]) reg
         | None \<Rightarrow> renderMultiple_loop rest config (results @ [[]]) reg)"

definition IconWrapper_renderMultiple ::
    "string list \<Rightarrow> IconConfig \<Rightarrow> IconRegistry \<Rightarrow> string list \<times> IconRegistry" where
  "IconWrapper_renderMultiple iconNames config reg =
     renderMultiple_loop iconNames config [] reg"

section \<open>IconCollection (iconwrapper.cpp)\<close>

record IconCollection =
  IconCollection_name :: string
  IconCollection_iconNames :: "string list"

definition IconCollection_IconCollection :: "string \<Rightarrow> IconCollection" where
  "IconCollection_IconCollection name =
     \<lparr>IconCollection_name = name, IconCollection_iconNames = []\<rparr>"

definition IconCollection_addIcon ::
    "string \<Rightarrow> IconCollection \<Rightarrow> IconRegistry \<Rightarrow> IconCollection \<times> IconRegistry" where
  "IconCollection_addIcon iconName this reg =
     (let (has, reg) = IconRegistry_hasIcon iconName reg
      in if has
         then (this\<lparr>IconCollection_iconNames := IconCollection_iconNames this @ [iconName]\<rparr>, reg)
         else (this, reg))"

definition IconCollection_size :: "IconCollection \<Rightarrow> nat" where
  "IconCollection_size this = length (IconCollection_iconNames this)"

definition IconCollection_getIconNames :: "IconCollection \<Rightarrow> string list" where
  "IconCollection_getIconNames this = IconCollection_iconNames this"

section \<open>IconTheme (iconwrapper.cpp)\<close>

record IconTheme =
  IconTheme_name :: string
  IconTheme_themeConfig :: IconConfig

definition IconTheme_IconTheme :: "string \<Rightarrow> IconTheme" where
  "IconTheme_IconTheme name =
     \<lparr>IconTheme_name = name, IconTheme_themeConfig = IconConfig_default\<rparr>"

definition IconTheme_setDefaultStroke :: "string \<Rightarrow> IconTheme \<Rightarrow> IconTheme" where
  "IconTheme_setDefaultStroke c this =
     this\<lparr>IconTheme_themeConfig := (IconTheme_themeConfig this)\<lparr>stroke := c\<rparr>\<rparr>"

definition IconTheme_setDefaultFill :: "string \<Rightarrow> IconTheme \<Rightarrow> IconTheme" where
  "IconTheme_setDefaultFill c this =
     this\<lparr>IconTheme_themeConfig := (IconTheme_themeConfig this)\<lparr>fill := c\<rparr>\<rparr>"

definition IconTheme_setDefaultStrokeWidth :: "cint \<Rightarrow> IconTheme \<Rightarrow> IconTheme" where
  "IconTheme_setDefaultStrokeWidth w this =
     this\<lparr>IconTheme_themeConfig := (IconTheme_themeConfig this)\<lparr>strokeWidth := w\<rparr>\<rparr>"

definition IconTheme_setDefaultSize :: "cint \<Rightarrow> IconTheme \<Rightarrow> IconTheme" where
  "IconTheme_setDefaultSize s this =
     this\<lparr>IconTheme_themeConfig := setSize s (IconTheme_themeConfig this)\<rparr>"

definition IconTheme_setDefaultColor :: "string \<Rightarrow> IconTheme \<Rightarrow> IconTheme" where
  "IconTheme_setDefaultColor c this =
     this\<lparr>IconTheme_themeConfig := setColor c (IconTheme_themeConfig this)\<rparr>"

definition IconTheme_getConfig :: "IconTheme \<Rightarrow> IconConfig" where
  "IconTheme_getConfig this = IconTheme_themeConfig this"

text \<open>\<open>applyTheme\<close>: \<open>result\<close> starts as a copy of the base and the five guards run in order.\<close>

definition IconTheme_applyTheme :: "IconTheme \<Rightarrow> IconConfig \<Rightarrow> IconConfig" where
  "IconTheme_applyTheme this baseConfig =
     (let themeConfig = IconTheme_themeConfig this;
          result = baseConfig;
          result = (if stroke baseConfig = ''currentColor''
                    then result\<lparr>stroke := (if stroke themeConfig = [] then ''currentColor''
                                            else stroke themeConfig)\<rparr>
                    else result);
          result = (if fill baseConfig = ''none''
                    then result\<lparr>fill := (if fill themeConfig = [] then ''none''
                                          else fill themeConfig)\<rparr>
                    else result);
          result = (if strokeWidth baseConfig = 2
                    then result\<lparr>strokeWidth := (if strokeWidth themeConfig = 2 then 2
                                                 else strokeWidth themeConfig)\<rparr>
                    else result);
          result = (if width baseConfig = 24
                    then result\<lparr>width := (if width themeConfig = 24 then 24
                                           else width themeConfig)\<rparr>
                    else result);
          result = (if height baseConfig = 24
                    then result\<lparr>height := (if height themeConfig = 24 then 24
                                            else height themeConfig)\<rparr>
                    else result)
      in result)"

definition IconTheme_light :: IconTheme where
  "IconTheme_light =
     (let theme = IconTheme_IconTheme ''light'';
          theme = IconTheme_setDefaultStroke ''#000000'' theme;
          theme = IconTheme_setDefaultFill ''none'' theme;
          theme = IconTheme_setDefaultStrokeWidth 2 theme;
          theme = IconTheme_setDefaultSize 24 theme
      in theme)"

definition IconTheme_dark :: IconTheme where
  "IconTheme_dark =
     (let theme = IconTheme_IconTheme ''dark'';
          theme = IconTheme_setDefaultStroke ''#ffffff'' theme;
          theme = IconTheme_setDefaultFill ''none'' theme;
          theme = IconTheme_setDefaultStrokeWidth 2 theme;
          theme = IconTheme_setDefaultSize 24 theme
      in theme)"

definition IconTheme_colorful :: IconTheme where
  "IconTheme_colorful =
     (let theme = IconTheme_IconTheme ''colorful'';
          theme = IconTheme_setDefaultStroke ''#3b82f6'' theme;
          theme = IconTheme_setDefaultFill ''#dbeafe'' theme;
          theme = IconTheme_setDefaultStrokeWidth 2 theme;
          theme = IconTheme_setDefaultSize 24 theme
      in theme)"


section \<open>Decimal numerals\<close>

text \<open>
  What \<open>ostream_int\<close> prints is the decimal numeral of the integer: only digits after
  an optional minus sign, no leading zero, and reading it back gives the integer, so
  different integers print differently.
\<close>

lemma below_ten: "d < 10 \<Longrightarrow>
    d = 0 \<or> d = 1 \<or> d = 2 \<or> d = 3 \<or> d = 4 \<or> d = 5 \<or> d = 6 \<or> d = 7 \<or> d = 8 \<or> d = (9::nat)"
  by arith

lemma digit_value_digit: "d < 10 \<Longrightarrow> digit_value (digit_chars ! d) = d"
  by (drule below_ten) (auto simp: digit_value_def digit_chars_def)

lemma digit_is_digit: "d < 10 \<Longrightarrow> is_digit (digit_chars ! d)"
  by (drule below_ten) (auto simp: is_digit_def digit_chars_def)

lemma digit_zero: "d < 10 \<Longrightarrow> digit_chars ! d = CHR ''0'' \<longleftrightarrow> d = 0"
  by (drule below_ten) (auto simp: digit_chars_def)

lemma read_nat_snoc: "read_nat (xs @ [c]) = 10 * read_nat xs + digit_value c"
  by (simp add: read_nat_def)

lemma read_nat_dec_nat: "read_nat (dec_nat n) = n"
proof (induction n rule: dec_nat.induct)
  case (1 n)
  show ?case
  proof (cases "n < 10")
    case True
    then show ?thesis
      by (subst dec_nat.simps) (simp add: read_nat_def digit_value_digit)
  next
    case False
    with "1" have "read_nat (dec_nat (n div 10)) = n div 10" by simp
    with False show ?thesis
      by (subst dec_nat.simps) (simp add: read_nat_snoc digit_value_digit)
  qed
qed

lemma dec_nat_digits: "dec_nat n \<noteq> [] \<and> list_all is_digit (dec_nat n)"
proof (induction n rule: dec_nat.induct)
  case (1 n)
  show ?case
  proof (cases "n < 10")
    case True
    then show ?thesis
      by (subst (1 2) dec_nat.simps) (simp add: digit_is_digit)
  next
    case False
    with "1" have "list_all is_digit (dec_nat (n div 10))" by simp
    with False show ?thesis
      by (subst (1 2) dec_nat.simps) (simp add: digit_is_digit)
  qed
qed

lemma dec_nat_no_leading_zero: "hd (dec_nat n) = CHR ''0'' \<Longrightarrow> n = 0"
proof (induction n rule: dec_nat.induct)
  case (1 n)
  show ?case
  proof (cases "n < 10")
    case True
    with "1.prems" show ?thesis
      by (subst (asm) dec_nat.simps) (simp add: digit_zero)
  next
    case False
    have ne: "dec_nat (n div 10) \<noteq> []" using dec_nat_digits by blast
    from False "1.prems" have "hd (dec_nat (n div 10)) = CHR ''0''"
      by (subst (asm) dec_nat.simps) (simp add: ne)
    with "1.IH" False have "n div 10 = 0" by simp
    with False show ?thesis by simp
  qed
qed

lemma is_digit_not_minus: "is_digit c \<Longrightarrow> c \<noteq> CHR ''-''"
  by (auto simp: is_digit_def digit_chars_def)

lemma read_int_dec_nat: "read_int (dec_nat n) = int n"
proof -
  obtain c r where cr: "dec_nat n = c # r" and "is_digit c"
    using dec_nat_digits [of n] by (cases "dec_nat n") auto
  then have "c \<noteq> CHR ''-''" by (simp add: is_digit_not_minus)
  with cr have "read_int (dec_nat n) = int (read_nat (dec_nat n))"
    by (simp add: read_int_def)
  then show ?thesis by (simp add: read_nat_dec_nat)
qed

lemma read_int_ostream_int: "read_int (ostream_int i) = sint i"
  by (cases "sint i < 0")
     (simp_all add: ostream_int_def read_int_dec_nat, simp add: read_int_def read_nat_dec_nat)

lemma ostream_int_inj: "ostream_int i = ostream_int j \<Longrightarrow> i = j"
proof -
  assume "ostream_int i = ostream_int j"
  then have "read_int (ostream_int i) = read_int (ostream_int j)" by simp
  then have "sint i = sint j" by (simp add: read_int_ostream_int)
  then show "i = j" by (rule signed_word_eqI)
qed

lemma ostream_int_digits: "list_all is_digit (ostream_int i) = (0 \<le> sint i)"
  using dec_nat_digits [of "nat (sint i)"] dec_nat_digits [of "nat (- sint i)"]
  by (auto simp: ostream_int_def is_digit_def digit_chars_def)

lemma ostream_int_examples:
  "ostream_int 24 = ''24''" "ostream_int 2 = ''2''" "ostream_int 0 = ''0''"
  "ostream_int (- 5) = ''-5''" "ostream_int 48 = ''48''"
  by (simp_all add: ostream_int_def dec_nat.simps digit_chars_def)

section \<open>Shape of the serialised icon\<close>

text \<open>
  The stream operations of \<open>buildSVG\<close> collapsed into one concatenation: the fixed
  opening, the seven attributes that are always written, the two optional ones, and the
  path data between \<open>>\<close> and the closing tag.
\<close>

lemma Icon_buildSVG_form:
  \<open>Icon_buildSVG ic config =
     ''<svg xmlns="http://www.w3.org/2000/svg"''
     @ '' width="'' @ ostream_int (width config) @ ''"''
     @ '' height="'' @ ostream_int (height config) @ ''"''
     @ '' viewBox="0 0 24 24"''
     @ '' fill="'' @ fill config @ ''"''
     @ '' stroke="'' @ stroke config @ ''"''
     @ '' stroke-width="'' @ ostream_int (strokeWidth config) @ ''"''
     @ '' stroke-linecap="'' @ strokeLinecap config @ ''"''
     @ '' stroke-linejoin="'' @ strokeLinejoin config @ ''"''
     @ (if className config = [] then [] else '' class="'' @ className config @ ''"'')
     @ (if style config = [] then [] else '' style="'' @ style config @ ''"'')
     @ ''>'' @ Icon_pathData ic @ ''</svg>''\<close>
  by (simp add: Icon_buildSVG_def Let_def)

lemma sublist_between: "ys = ps @ xs @ ss \<Longrightarrow> sublist xs ys"
  by (auto simp: sublist_def)

lemma toSVG_prefix: \<open>prefix ''<svg'' (Icon_toSVG ic config)\<close>
  by (simp add: Icon_toSVG_def Icon_buildSVG_form)

lemma toSVG_nonempty: "Icon_toSVG ic config \<noteq> []"
  by (simp add: Icon_toSVG_def Icon_buildSVG_form)

lemma toSVG_suffix: \<open>suffix (Icon_pathData ic @ ''</svg>'') (Icon_toSVG ic config)\<close>
  unfolding Icon_toSVG_def Icon_buildSVG_form suffix_def
  by (simp only: append_assoc [symmetric]) blast

lemma toSVG_viewBox: \<open>sublist ''viewBox="0 0 24 24"'' (Icon_toSVG ic config)\<close>
  by (rule sublist_between [where
        ps = \<open>''<svg xmlns="http://www.w3.org/2000/svg"''
          @ '' width="'' @ ostream_int (width config) @ ''"''
          @ '' height="'' @ ostream_int (height config) @ ''"'' @ '' ''\<close>
        and ss = \<open>'' fill="'' @ fill config @ ''"''
          @ '' stroke="'' @ stroke config @ ''"''
          @ '' stroke-width="'' @ ostream_int (strokeWidth config) @ ''"''
          @ '' stroke-linecap="'' @ strokeLinecap config @ ''"''
          @ '' stroke-linejoin="'' @ strokeLinejoin config @ ''"''
          @ (if className config = [] then [] else '' class="'' @ className config @ ''"'')
          @ (if style config = [] then [] else '' style="'' @ style config @ ''"'')
          @ ''>'' @ Icon_pathData ic @ ''</svg>''\<close>])
     (simp add: Icon_toSVG_def Icon_buildSVG_form)

lemma toSVG_width:
  \<open>sublist ('' width="'' @ ostream_int (width config) @ ''"'') (Icon_toSVG ic config)\<close>
  by (rule sublist_between [where
        ps = \<open>''<svg xmlns="http://www.w3.org/2000/svg"''\<close>
        and ss = \<open>'' height="'' @ ostream_int (height config) @ ''"''
          @ '' viewBox="0 0 24 24"''
          @ '' fill="'' @ fill config @ ''"''
          @ '' stroke="'' @ stroke config @ ''"''
          @ '' stroke-width="'' @ ostream_int (strokeWidth config) @ ''"''
          @ '' stroke-linecap="'' @ strokeLinecap config @ ''"''
          @ '' stroke-linejoin="'' @ strokeLinejoin config @ ''"''
          @ (if className config = [] then [] else '' class="'' @ className config @ ''"'')
          @ (if style config = [] then [] else '' style="'' @ style config @ ''"'')
          @ ''>'' @ Icon_pathData ic @ ''</svg>''\<close>])
     (simp add: Icon_toSVG_def Icon_buildSVG_form)

lemma toSVG_height:
  \<open>sublist ('' height="'' @ ostream_int (height config) @ ''"'') (Icon_toSVG ic config)\<close>
  by (rule sublist_between [where
        ps = \<open>''<svg xmlns="http://www.w3.org/2000/svg"''
          @ '' width="'' @ ostream_int (width config) @ ''"''\<close>
        and ss = \<open>'' viewBox="0 0 24 24"''
          @ '' fill="'' @ fill config @ ''"''
          @ '' stroke="'' @ stroke config @ ''"''
          @ '' stroke-width="'' @ ostream_int (strokeWidth config) @ ''"''
          @ '' stroke-linecap="'' @ strokeLinecap config @ ''"''
          @ '' stroke-linejoin="'' @ strokeLinejoin config @ ''"''
          @ (if className config = [] then [] else '' class="'' @ className config @ ''"'')
          @ (if style config = [] then [] else '' style="'' @ style config @ ''"'')
          @ ''>'' @ Icon_pathData ic @ ''</svg>''\<close>])
     (simp add: Icon_toSVG_def Icon_buildSVG_form)

lemma toSVG_fill:
  \<open>sublist ('' fill="'' @ fill config @ ''"'') (Icon_toSVG ic config)\<close>
  by (rule sublist_between [where
        ps = \<open>''<svg xmlns="http://www.w3.org/2000/svg"''
          @ '' width="'' @ ostream_int (width config) @ ''"''
          @ '' height="'' @ ostream_int (height config) @ ''"''
          @ '' viewBox="0 0 24 24"''\<close>
        and ss = \<open>'' stroke="'' @ stroke config @ ''"''
          @ '' stroke-width="'' @ ostream_int (strokeWidth config) @ ''"''
          @ '' stroke-linecap="'' @ strokeLinecap config @ ''"''
          @ '' stroke-linejoin="'' @ strokeLinejoin config @ ''"''
          @ (if className config = [] then [] else '' class="'' @ className config @ ''"'')
          @ (if style config = [] then [] else '' style="'' @ style config @ ''"'')
          @ ''>'' @ Icon_pathData ic @ ''</svg>''\<close>])
     (simp add: Icon_toSVG_def Icon_buildSVG_form)

lemma toSVG_stroke:
  \<open>sublist ('' stroke="'' @ stroke config @ ''"'') (Icon_toSVG ic config)\<close>
  by (rule sublist_between [where
        ps = \<open>''<svg xmlns="http://www.w3.org/2000/svg"''
          @ '' width="'' @ ostream_int (width config) @ ''"''
          @ '' height="'' @ ostream_int (height config) @ ''"''
          @ '' viewBox="0 0 24 24"''
          @ '' fill="'' @ fill config @ ''"''\<close>
        and ss = \<open>'' stroke-width="'' @ ostream_int (strokeWidth config) @ ''"''
          @ '' stroke-linecap="'' @ strokeLinecap config @ ''"''
          @ '' stroke-linejoin="'' @ strokeLinejoin config @ ''"''
          @ (if className config = [] then [] else '' class="'' @ className config @ ''"'')
          @ (if style config = [] then [] else '' style="'' @ style config @ ''"'')
          @ ''>'' @ Icon_pathData ic @ ''</svg>''\<close>])
     (simp add: Icon_toSVG_def Icon_buildSVG_form)

section \<open>Serialisation\<close>

text \<open>
  C2. For every icon and every configuration, \<open>toSVG(config)\<close> is exactly: the opening
  \<open><svg xmlns=...\<close>; then the attributes width, height, the fixed
  \<open>viewBox="0 0 24 24"\<close>, fill, stroke, stroke-width, stroke-linecap and
  stroke-linejoin, each holding the configuration's value as it is (the strings
  unescaped; the integers as their decimal numerals, which read back as the configured
  values); then a class attribute if and only if \<open>className\<close> is non-empty, and a style
  attribute if and only if \<open>style\<close> is non-empty; then \<open>>\<close>, the icon's path data as it
  is, and \<open></svg>\<close>. Hence the result begins with \<open><svg\<close>, contains
  \<open>viewBox="0 0 24 24"\<close> whatever the width and height are, and ends with the path data
  followed by \<open></svg>\<close>. Two instances are written out in full: the default
  configuration, and one with a negative width, a class and a style.
\<close>

theorem toSVG_structure:
  \<open>Icon_toSVG ic config =
     ''<svg'' @ '' xmlns="http://www.w3.org/2000/svg"''
     @ '' width="'' @ ostream_int (width config) @ ''"''
     @ '' height="'' @ ostream_int (height config) @ ''"''
     @ '' viewBox="0 0 24 24"''
     @ '' fill="'' @ fill config @ ''"''
     @ '' stroke="'' @ stroke config @ ''"''
     @ '' stroke-width="'' @ ostream_int (strokeWidth config) @ ''"''
     @ '' stroke-linecap="'' @ strokeLinecap config @ ''"''
     @ '' stroke-linejoin="'' @ strokeLinejoin config @ ''"''
     @ (if className config = [] then [] else '' class="'' @ className config @ ''"'')
     @ (if style config = [] then [] else '' style="'' @ style config @ ''"'')
     @ ''>'' @ Icon_pathData ic @ ''</svg>''
   \<and> prefix ''<svg'' (Icon_toSVG ic config)
   \<and> sublist ''viewBox="0 0 24 24"'' (Icon_toSVG ic config)
   \<and> suffix (Icon_pathData ic @ ''</svg>'') (Icon_toSVG ic config)
   \<and> read_int (ostream_int (width config)) = sint (width config)
   \<and> read_int (ostream_int (height config)) = sint (height config)
   \<and> read_int (ostream_int (strokeWidth config)) = sint (strokeWidth config)
   \<and> list_all is_digit (ostream_int (width config)) = (0 \<le> sint (width config))
   \<and> list_all is_digit (ostream_int (height config)) = (0 \<le> sint (height config))
   \<and> list_all is_digit (ostream_int (strokeWidth config)) = (0 \<le> sint (strokeWidth config))
   \<and> Icon_toSVG (Icon_Icon ''home'' ''<path d="M3 9l9-7"/>'') IconConfig_default
     = ''<svg xmlns="http://www.w3.org/2000/svg" width="24" height="24" viewBox="0 0 24 24" fill="none" stroke="currentColor" stroke-width="2" stroke-linecap="round" stroke-linejoin="round"><path d="M3 9l9-7"/></svg>''
   \<and> Icon_toSVG (Icon_Icon ''home'' ''<path d="M3 9l9-7"/>'')
        (IconConfig_default\<lparr>width := - 5, height := 48, className := ''big'', style := ''x:y''\<rparr>)
     = ''<svg xmlns="http://www.w3.org/2000/svg" width="-5" height="48" viewBox="0 0 24 24" fill="none" stroke="currentColor" stroke-width="2" stroke-linecap="round" stroke-linejoin="round" class="big" style="x:y"><path d="M3 9l9-7"/></svg>''\<close>
proof -
  have shape: \<open>Icon_toSVG ic config =
     ''<svg'' @ '' xmlns="http://www.w3.org/2000/svg"''
     @ '' width="'' @ ostream_int (width config) @ ''"''
     @ '' height="'' @ ostream_int (height config) @ ''"''
     @ '' viewBox="0 0 24 24"''
     @ '' fill="'' @ fill config @ ''"''
     @ '' stroke="'' @ stroke config @ ''"''
     @ '' stroke-width="'' @ ostream_int (strokeWidth config) @ ''"''
     @ '' stroke-linecap="'' @ strokeLinecap config @ ''"''
     @ '' stroke-linejoin="'' @ strokeLinejoin config @ ''"''
     @ (if className config = [] then [] else '' class="'' @ className config @ ''"'')
     @ (if style config = [] then [] else '' style="'' @ style config @ ''"'')
     @ ''>'' @ Icon_pathData ic @ ''</svg>''\<close>
    by (simp add: Icon_toSVG_def Icon_buildSVG_form)
  have ex1: \<open>Icon_toSVG (Icon_Icon ''home'' ''<path d="M3 9l9-7"/>'') IconConfig_default
     = ''<svg xmlns="http://www.w3.org/2000/svg" width="24" height="24" viewBox="0 0 24 24" fill="none" stroke="currentColor" stroke-width="2" stroke-linecap="round" stroke-linejoin="round"><path d="M3 9l9-7"/></svg>''\<close>
    by (simp add: Icon_toSVG_def Icon_buildSVG_form IconConfig_default_def Icon_Icon_def
        ostream_int_examples)
  have ex2: \<open>Icon_toSVG (Icon_Icon ''home'' ''<path d="M3 9l9-7"/>'')
        (IconConfig_default\<lparr>width := - 5, height := 48, className := ''big'', style := ''x:y''\<rparr>)
     = ''<svg xmlns="http://www.w3.org/2000/svg" width="-5" height="48" viewBox="0 0 24 24" fill="none" stroke="currentColor" stroke-width="2" stroke-linecap="round" stroke-linejoin="round" class="big" style="x:y"><path d="M3 9l9-7"/></svg>''\<close>
    by (simp add: Icon_toSVG_def Icon_buildSVG_form IconConfig_default_def Icon_Icon_def
        ostream_int_examples)
  from shape toSVG_prefix [of ic config] toSVG_viewBox [of ic config] toSVG_suffix [of ic config]
    read_int_ostream_int [of "width config"] read_int_ostream_int [of "height config"]
    read_int_ostream_int [of "strokeWidth config"]
    ostream_int_digits [of "width config"] ostream_int_digits [of "height config"]
    ostream_int_digits [of "strokeWidth config"] ex1 ex2
  show ?thesis by blast
qed

text \<open>
  C10. The serialisation does not read the convenience fields: two configurations that
  agree on every field other than \<open>color\<close> and \<open>size\<close> give the same string for every
  icon.
\<close>

theorem toSVG_ignores_color_and_size:
  assumes "width c1 = width c2" and "height c1 = height c2"
    and "stroke c1 = stroke c2" and "strokeWidth c1 = strokeWidth c2"
    and "strokeLinecap c1 = strokeLinecap c2" and "strokeLinejoin c1 = strokeLinejoin c2"
    and "fill c1 = fill c2" and "className c1 = className c2" and "style c1 = style c2"
  shows "Icon_toSVG ic c1 = Icon_toSVG ic c2"
  using assms by (simp add: Icon_toSVG_def Icon_buildSVG_form)

theorem toSVG_ignores_color_and_size_witness:
  \<open>color (IconConfig_default\<lparr>color := ''#ff0000'', size' := 48\<rparr>) \<noteq> color IconConfig_default
   \<and> size' (IconConfig_default\<lparr>color := ''#ff0000'', size' := 48\<rparr>) \<noteq> size' IconConfig_default
   \<and> Icon_toSVG (Icon_Icon ''home'' ''<path d="M3 9l9-7"/>'')
         (IconConfig_default\<lparr>color := ''#ff0000'', size' := 48\<rparr>)
       = Icon_toSVG (Icon_Icon ''home'' ''<path d="M3 9l9-7"/>'') IconConfig_default\<close>
  using toSVG_ignores_color_and_size
    [of \<open>IconConfig_default\<lparr>color := ''#ff0000'', size' := 48\<rparr>\<close> IconConfig_default
        \<open>Icon_Icon ''home'' ''<path d="M3 9l9-7"/>''\<close>]
  by (simp add: IconConfig_default_def)

section \<open>Registration and lookup\<close>

text \<open>
  C5. After \<open>registerIcon(name, P)\<close> on any registry, \<open>getIcon(name)\<close> returns an icon
  whose \<open>getPathData()\<close> is exactly \<open>P\<close> and whose \<open>getName()\<close> is exactly \<open>name\<close>,
  whatever the two strings are; after a second \<open>registerIcon(name, Q)\<close> the lookup
  returns the icon with path data \<open>Q\<close>: the last registration wins.
\<close>

theorem register_then_get:
  "fst (IconRegistry_getIcon name (IconRegistry_registerIcon name P reg))
     = Some (Icon_Icon name P)
   \<and> map_option Icon_getPathData
        (fst (IconRegistry_getIcon name (IconRegistry_registerIcon name P reg))) = Some P
   \<and> map_option Icon_getName
        (fst (IconRegistry_getIcon name (IconRegistry_registerIcon name P reg))) = Some name
   \<and> map_option Icon_getPathData
        (fst (IconRegistry_getIcon name
           (IconRegistry_registerIcon name Q (IconRegistry_registerIcon name P reg)))) = Some Q
   \<and> map_option Icon_getName
        (fst (IconRegistry_getIcon name
           (IconRegistry_registerIcon name Q (IconRegistry_registerIcon name P reg)))) = Some name"
  by (simp add: IconRegistry_getIcon_def IconRegistry_registerIcon_def Icon_Icon_def
      Icon_getPathData_def Icon_getName_def)

section \<open>Generation by name\<close>

lemma generateSVG_eq:
  "IconRegistry_generateSVG name config reg =
     (case IconRegistry_icons reg name of Some ic \<Rightarrow> Icon_toSVG ic config | None \<Rightarrow> [], reg)"
  by (simp add: IconRegistry_generateSVG_def IconRegistry_getIcon_def split: option.split)

text \<open>
  C3. For every name, configuration and registry: when no icon is registered under the
  name, \<open>generateSVG(name, config)\<close> returns the empty string (its result is a string:
  there is no exception path); when an icon is registered under the name, it returns that
  icon's \<open>toSVG(config)\<close>. In both cases the registry after the call is the registry
  before it.
\<close>

theorem generateSVG_unknown_or_known:
  "(\<not> fst (IconRegistry_hasIcon name reg)
      \<longrightarrow> fst (IconRegistry_generateSVG name config reg) = [])
   \<and> (\<forall>ic. fst (IconRegistry_getIcon name reg) = Some ic
      \<longrightarrow> fst (IconRegistry_generateSVG name config reg) = Icon_toSVG ic config)
   \<and> snd (IconRegistry_generateSVG name config reg) = reg"
  by (simp add: generateSVG_eq IconRegistry_hasIcon_def IconRegistry_getIcon_def
      split: option.split)

theorem generateSVG_unknown_or_known_witness:
  \<open>\<not> fst (IconRegistry_hasIcon ''nonexistent''
          (IconRegistry_registerIcon ''home'' ''<path d="M3 9l9-7"/>'' IconRegistry_IconRegistry))
   \<and> fst (IconRegistry_generateSVG ''nonexistent'' IconConfig_default
          (IconRegistry_registerIcon ''home'' ''<path d="M3 9l9-7"/>'' IconRegistry_IconRegistry))
       = []
   \<and> fst (IconRegistry_getIcon ''home''
          (IconRegistry_registerIcon ''home'' ''<path d="M3 9l9-7"/>'' IconRegistry_IconRegistry))
       = Some (Icon_Icon ''home'' ''<path d="M3 9l9-7"/>'')
   \<and> fst (IconRegistry_generateSVG ''home'' IconConfig_default
          (IconRegistry_registerIcon ''home'' ''<path d="M3 9l9-7"/>'' IconRegistry_IconRegistry))
       = Icon_toSVG (Icon_Icon ''home'' ''<path d="M3 9l9-7"/>'') IconConfig_default
   \<and> snd (IconRegistry_generateSVG ''home'' IconConfig_default
          (IconRegistry_registerIcon ''home'' ''<path d="M3 9l9-7"/>'' IconRegistry_IconRegistry))
       = IconRegistry_registerIcon ''home'' ''<path d="M3 9l9-7"/>'' IconRegistry_IconRegistry\<close>
proof -
  let ?reg = \<open>IconRegistry_registerIcon ''home'' ''<path d="M3 9l9-7"/>'' IconRegistry_IconRegistry\<close>
  have absent: "\<not> fst (IconRegistry_hasIcon ''nonexistent'' ?reg)"
    by (simp add: IconRegistry_hasIcon_def IconRegistry_registerIcon_def
        IconRegistry_IconRegistry_def)
  have present: \<open>fst (IconRegistry_getIcon ''home'' ?reg)
      = Some (Icon_Icon ''home'' ''<path d="M3 9l9-7"/>'')\<close>
    by (simp add: IconRegistry_getIcon_def IconRegistry_registerIcon_def)
  from generateSVG_unknown_or_known [of "''nonexistent''" ?reg IconConfig_default] absent
  have a: "fst (IconRegistry_generateSVG ''nonexistent'' IconConfig_default ?reg) = []"
    by blast
  from generateSVG_unknown_or_known [of "''home''" ?reg IconConfig_default] present
  have b: \<open>fst (IconRegistry_generateSVG ''home'' IconConfig_default ?reg)
      = Icon_toSVG (Icon_Icon ''home'' ''<path d="M3 9l9-7"/>'') IconConfig_default\<close>
    and c: "snd (IconRegistry_generateSVG ''home'' IconConfig_default ?reg) = ?reg"
    by blast+
  from absent present a b c show ?thesis by blast
qed

section \<open>Batch rendering\<close>

lemma renderMultiple_loop_eq:
  "renderMultiple_loop names config results reg =
     (results @ map (\<lambda>n. case IconRegistry_icons reg n of
                            Some ic \<Rightarrow> Icon_toSVG ic config | None \<Rightarrow> []) names, reg)"
proof (induction names arbitrary: results)
  case Nil
  show ?case by simp
next
  case (Cons n names)
  show ?case
    by (cases "IconRegistry_icons reg n") (simp_all add: IconRegistry_getIcon_def Cons.IH)
qed

text \<open>
  C4. For every list of names, shared configuration and registry, \<open>renderMultiple\<close>
  returns a list as long as the list of names; at every index \<open>i\<close> its element is the
  empty string when \<open>names[i]\<close> is not registered, and the \<open>toSVG(config)\<close> of the icon
  registered under \<open>names[i]\<close> when it is. The registry is as before.
\<close>

theorem renderMultiple_parallel:
  "length (fst (IconWrapper_renderMultiple names config reg)) = length names
   \<and> (\<forall>i < length names.
        (\<not> fst (IconRegistry_hasIcon (names ! i) reg)
           \<longrightarrow> fst (IconWrapper_renderMultiple names config reg) ! i = [])
      \<and> (\<forall>ic. fst (IconRegistry_getIcon (names ! i) reg) = Some ic
           \<longrightarrow> fst (IconWrapper_renderMultiple names config reg) ! i = Icon_toSVG ic config))
   \<and> snd (IconWrapper_renderMultiple names config reg) = reg"
  by (simp add: IconWrapper_renderMultiple_def renderMultiple_loop_eq
      IconRegistry_hasIcon_def IconRegistry_getIcon_def split: option.split)

theorem renderMultiple_parallel_witness:
  \<open>length (fst (IconWrapper_renderMultiple [''home'', ''ghost-icon''] IconConfig_default
       (IconRegistry_registerIcon ''home'' ''<path d="M3 9l9-7"/>'' IconRegistry_IconRegistry)))
     = 2
   \<and> fst (IconWrapper_renderMultiple [''home'', ''ghost-icon''] IconConfig_default
       (IconRegistry_registerIcon ''home'' ''<path d="M3 9l9-7"/>'' IconRegistry_IconRegistry)) ! 0
     = Icon_toSVG (Icon_Icon ''home'' ''<path d="M3 9l9-7"/>'') IconConfig_default
   \<and> fst (IconWrapper_renderMultiple [''home'', ''ghost-icon''] IconConfig_default
       (IconRegistry_registerIcon ''home'' ''<path d="M3 9l9-7"/>'' IconRegistry_IconRegistry)) ! 0
     \<noteq> []
   \<and> fst (IconWrapper_renderMultiple [''home'', ''ghost-icon''] IconConfig_default
       (IconRegistry_registerIcon ''home'' ''<path d="M3 9l9-7"/>'' IconRegistry_IconRegistry)) ! 1
     = []\<close>
proof -
  let ?reg = \<open>IconRegistry_registerIcon ''home'' ''<path d="M3 9l9-7"/>'' IconRegistry_IconRegistry\<close>
  let ?names = "[''home'', ''ghost-icon'']"
  let ?out = "fst (IconWrapper_renderMultiple ?names IconConfig_default ?reg)"
  note t = renderMultiple_parallel [of ?names IconConfig_default ?reg]
  have absent: "\<not> fst (IconRegistry_hasIcon (?names ! 1) ?reg)"
    by (simp add: IconRegistry_hasIcon_def IconRegistry_registerIcon_def
        IconRegistry_IconRegistry_def)
  have present: \<open>fst (IconRegistry_getIcon (?names ! 0) ?reg)
      = Some (Icon_Icon ''home'' ''<path d="M3 9l9-7"/>'')\<close>
    by (simp add: IconRegistry_getIcon_def IconRegistry_registerIcon_def)
  from t have len: "length ?out = 2" by simp
  from t have at: "\<And>i. i < length ?names \<Longrightarrow>
        (\<not> fst (IconRegistry_hasIcon (?names ! i) ?reg) \<longrightarrow> ?out ! i = [])
      \<and> (\<forall>ic. fst (IconRegistry_getIcon (?names ! i) ?reg) = Some ic
           \<longrightarrow> ?out ! i = Icon_toSVG ic IconConfig_default)"
    by blast
  have one: "?out ! 1 = []" using at [of 1] absent by simp
  have zero: \<open>?out ! 0 = Icon_toSVG (Icon_Icon ''home'' ''<path d="M3 9l9-7"/>'') IconConfig_default\<close>
    using at [of 0] present by simp
  have "?out ! 0 \<noteq> []" unfolding zero by (rule toSVG_nonempty)
  with len zero one show ?thesis by blast
qed

section \<open>Collections\<close>

text \<open>
  C7. For every collection, name and registry: when the name is not registered,
  \<open>addIcon(name)\<close> leaves the collection as it was (the same list of names, so the same
  size, elements and order); when it is registered, the list of names after the call is
  the list before it with the name appended at the end. The call returns the collection
  (there is no exception path), and the registry is as before.
\<close>

theorem addIcon_unregistered_or_registered:
  "(\<not> fst (IconRegistry_hasIcon name reg)
      \<longrightarrow> fst (IconCollection_addIcon name coll reg) = coll
        \<and> IconCollection_size (fst (IconCollection_addIcon name coll reg))
            = IconCollection_size coll)
   \<and> (fst (IconRegistry_hasIcon name reg)
      \<longrightarrow> IconCollection_getIconNames (fst (IconCollection_addIcon name coll reg))
            = IconCollection_getIconNames coll @ [name]
        \<and> IconCollection_name (fst (IconCollection_addIcon name coll reg))
            = IconCollection_name coll)
   \<and> snd (IconCollection_addIcon name coll reg) = reg"
  by (simp add: IconCollection_addIcon_def IconRegistry_hasIcon_def
      IconCollection_size_def IconCollection_getIconNames_def)

theorem addIcon_unregistered_or_registered_witness:
  \<open>\<not> fst (IconRegistry_hasIcon ''missing-name''
          (IconRegistry_registerIcon ''home'' ''<path d="M3 9l9-7"/>'' IconRegistry_IconRegistry))
   \<and> fst (IconCollection_addIcon ''missing-name'' (IconCollection_IconCollection ''nav'')
          (IconRegistry_registerIcon ''home'' ''<path d="M3 9l9-7"/>'' IconRegistry_IconRegistry))
       = IconCollection_IconCollection ''nav''
   \<and> fst (IconRegistry_hasIcon ''home''
          (IconRegistry_registerIcon ''home'' ''<path d="M3 9l9-7"/>'' IconRegistry_IconRegistry))
   \<and> IconCollection_getIconNames
        (fst (IconCollection_addIcon ''home'' (IconCollection_IconCollection ''nav'')
          (IconRegistry_registerIcon ''home'' ''<path d="M3 9l9-7"/>'' IconRegistry_IconRegistry)))
       = [''home'']\<close>
proof -
  let ?reg = \<open>IconRegistry_registerIcon ''home'' ''<path d="M3 9l9-7"/>'' IconRegistry_IconRegistry\<close>
  let ?coll = "IconCollection_IconCollection ''nav''"
  have absent: "\<not> fst (IconRegistry_hasIcon ''missing-name'' ?reg)"
    by (simp add: IconRegistry_hasIcon_def IconRegistry_registerIcon_def
        IconRegistry_IconRegistry_def)
  have present: "fst (IconRegistry_hasIcon ''home'' ?reg)"
    by (simp add: IconRegistry_hasIcon_def IconRegistry_registerIcon_def)
  from addIcon_unregistered_or_registered [of "''missing-name''" ?reg ?coll] absent
  have a: "fst (IconCollection_addIcon ''missing-name'' ?coll ?reg) = ?coll"
    by blast
  from addIcon_unregistered_or_registered [of "''home''" ?reg ?coll] present
  have "IconCollection_getIconNames (fst (IconCollection_addIcon ''home'' ?coll ?reg))
      = IconCollection_getIconNames ?coll @ [''home'']"
    by blast
  then have b: "IconCollection_getIconNames (fst (IconCollection_addIcon ''home'' ?coll ?reg))
      = [''home'']"
    by (simp add: IconCollection_getIconNames_def IconCollection_IconCollection_def)
  from absent a present b show ?thesis by blast
qed

section \<open>The fluent wrapper\<close>

lemmas wrapper_setter_defs =
  IconWrapper_size_def IconWrapper_size_wh_def IconWrapper_stroke_def
  IconWrapper_strokeWidth_def IconWrapper_fill_def IconWrapper_className_def
  IconWrapper_style_def IconWrapper_color_def IconWrapper_reset_def

lemma render_bound:
  "IconWrapper_icon w = Some ic \<Longrightarrow> IconWrapper_render w = Icon_toSVG ic (IconWrapper_config w)"
  by (simp add: IconWrapper_render_def)






text \<open>
  C6. For a wrapper bound to an icon, every integer \<open>s\<close> and every string \<open>c\<close>:
  \<open>size(s)\<close> then \<open>render()\<close> gives the icon serialised with width and height \<open>s\<close>, so
  the output contains \<open> width="s"\<close> and \<open> height="s"\<close>, where the text between the
  quotes is the decimal numeral of \<open>s\<close> (read back, it is \<open>s\<close>); \<open>color(c)\<close> then
  \<open>render()\<close> contains \<open> stroke="c"\<close> and \<open> fill="c"\<close>. Each fluent setter returns the
  wrapper it was called on, with the same icon and with the configuration changed in the
  fields it sets and in no other, so calls chain. A \<open>stroke\<close> call after \<open>color(c)\<close>
  changes the stroke only (the fill written is still \<open>c\<close>), and a \<open>fill\<close> call after
  \<open>color(c)\<close> changes the fill only.
\<close>

theorem fluent_size_and_color:
  assumes "IconWrapper_icon w = Some ic"
  shows \<open>IconWrapper_render (IconWrapper_size s w)
        = Icon_toSVG ic ((IconWrapper_config w)\<lparr>width := s, height := s\<rparr>)
     \<and> sublist ('' width="'' @ ostream_int s @ ''"'') (IconWrapper_render (IconWrapper_size s w))
     \<and> sublist ('' height="'' @ ostream_int s @ ''"'') (IconWrapper_render (IconWrapper_size s w))
     \<and> read_int (ostream_int s) = sint s
     \<and> IconWrapper_render (IconWrapper_color c w)
        = Icon_toSVG ic ((IconWrapper_config w)\<lparr>color := c, stroke := c, fill := c\<rparr>)
     \<and> sublist ('' stroke="'' @ c @ ''"'') (IconWrapper_render (IconWrapper_color c w))
     \<and> sublist ('' fill="'' @ c @ ''"'') (IconWrapper_render (IconWrapper_color c w))
     \<and> IconWrapper_size s w
        = w\<lparr>IconWrapper_config := (IconWrapper_config w)\<lparr>width := s, height := s\<rparr>\<rparr>
     \<and> IconWrapper_size_wh a b w
        = w\<lparr>IconWrapper_config := (IconWrapper_config w)\<lparr>width := a, height := b\<rparr>\<rparr>
     \<and> IconWrapper_stroke c w
        = w\<lparr>IconWrapper_config := (IconWrapper_config w)\<lparr>stroke := c\<rparr>\<rparr>
     \<and> IconWrapper_strokeWidth a w
        = w\<lparr>IconWrapper_config := (IconWrapper_config w)\<lparr>strokeWidth := a\<rparr>\<rparr>
     \<and> IconWrapper_fill c w
        = w\<lparr>IconWrapper_config := (IconWrapper_config w)\<lparr>fill := c\<rparr>\<rparr>
     \<and> IconWrapper_className c w
        = w\<lparr>IconWrapper_config := (IconWrapper_config w)\<lparr>className := c\<rparr>\<rparr>
     \<and> IconWrapper_style c w
        = w\<lparr>IconWrapper_config := (IconWrapper_config w)\<lparr>style := c\<rparr>\<rparr>
     \<and> IconWrapper_color c w
        = w\<lparr>IconWrapper_config := (IconWrapper_config w)\<lparr>color := c, stroke := c, fill := c\<rparr>\<rparr>
     \<and> IconWrapper_icon (IconWrapper_size s w) = Some ic
     \<and> IconWrapper_icon (IconWrapper_size_wh a b w) = Some ic
     \<and> IconWrapper_icon (IconWrapper_stroke c w) = Some ic
     \<and> IconWrapper_icon (IconWrapper_strokeWidth a w) = Some ic
     \<and> IconWrapper_icon (IconWrapper_fill c w) = Some ic
     \<and> IconWrapper_icon (IconWrapper_className c w) = Some ic
     \<and> IconWrapper_icon (IconWrapper_style c w) = Some ic
     \<and> IconWrapper_icon (IconWrapper_color c w) = Some ic
     \<and> IconWrapper_config (IconWrapper_stroke c' (IconWrapper_color c w))
         = (IconWrapper_config (IconWrapper_color c w))\<lparr>stroke := c'\<rparr>
     \<and> IconWrapper_config (IconWrapper_fill c' (IconWrapper_color c w))
         = (IconWrapper_config (IconWrapper_color c w))\<lparr>fill := c'\<rparr>
     \<and> sublist ('' stroke="'' @ c' @ ''"'')
         (IconWrapper_render (IconWrapper_stroke c' (IconWrapper_color c w)))
     \<and> sublist ('' fill="'' @ c @ ''"'')
         (IconWrapper_render (IconWrapper_stroke c' (IconWrapper_color c w)))
     \<and> sublist ('' fill="'' @ c' @ ''"'')
         (IconWrapper_render (IconWrapper_fill c' (IconWrapper_color c w)))
     \<and> sublist ('' stroke="'' @ c @ ''"'')
         (IconWrapper_render (IconWrapper_fill c' (IconWrapper_color c w)))\<close>
proof -
  have size_cfg: "IconWrapper_config (IconWrapper_size s w)
      = (IconWrapper_config w)\<lparr>width := s, height := s\<rparr>"
    by (simp add: wrapper_setter_defs)
  have color_cfg: "IconWrapper_config (IconWrapper_color c w)
      = (IconWrapper_config w)\<lparr>color := c, stroke := c, fill := c\<rparr>"
    by (simp add: wrapper_setter_defs)
  have r_size: "IconWrapper_render (IconWrapper_size s w)
      = Icon_toSVG ic (IconWrapper_config (IconWrapper_size s w))"
    using assms by (simp add: render_bound wrapper_setter_defs)
  have r_color: "IconWrapper_render (IconWrapper_color c w)
      = Icon_toSVG ic (IconWrapper_config (IconWrapper_color c w))"
    using assms by (simp add: render_bound wrapper_setter_defs)
  have r_sc: "IconWrapper_render (IconWrapper_stroke c' (IconWrapper_color c w))
      = Icon_toSVG ic (IconWrapper_config (IconWrapper_stroke c' (IconWrapper_color c w)))"
    using assms by (simp add: render_bound wrapper_setter_defs)
  have r_fc: "IconWrapper_render (IconWrapper_fill c' (IconWrapper_color c w))
      = Icon_toSVG ic (IconWrapper_config (IconWrapper_fill c' (IconWrapper_color c w)))"
    using assms by (simp add: render_bound wrapper_setter_defs)
  have w1: \<open>sublist ('' width="'' @ ostream_int s @ ''"'')
      (IconWrapper_render (IconWrapper_size s w))\<close>
    using toSVG_width [of "IconWrapper_config (IconWrapper_size s w)" ic]
    by (simp add: r_size) (simp add: size_cfg)
  have h1: \<open>sublist ('' height="'' @ ostream_int s @ ''"'')
      (IconWrapper_render (IconWrapper_size s w))\<close>
    using toSVG_height [of "IconWrapper_config (IconWrapper_size s w)" ic]
    by (simp add: r_size) (simp add: size_cfg)
  have s1: \<open>sublist ('' stroke="'' @ c @ ''"'') (IconWrapper_render (IconWrapper_color c w))\<close>
    using toSVG_stroke [of "IconWrapper_config (IconWrapper_color c w)" ic]
    by (simp add: r_color) (simp add: wrapper_setter_defs)
  have f1: \<open>sublist ('' fill="'' @ c @ ''"'') (IconWrapper_render (IconWrapper_color c w))\<close>
    using toSVG_fill [of "IconWrapper_config (IconWrapper_color c w)" ic]
    by (simp add: r_color) (simp add: wrapper_setter_defs)
  have s2: \<open>sublist ('' stroke="'' @ c' @ ''"'')
      (IconWrapper_render (IconWrapper_stroke c' (IconWrapper_color c w)))\<close>
    using toSVG_stroke [of "IconWrapper_config (IconWrapper_stroke c' (IconWrapper_color c w))" ic]
    by (simp add: r_sc) (simp add: wrapper_setter_defs)
  have f2: \<open>sublist ('' fill="'' @ c @ ''"'')
      (IconWrapper_render (IconWrapper_stroke c' (IconWrapper_color c w)))\<close>
    using toSVG_fill [of "IconWrapper_config (IconWrapper_stroke c' (IconWrapper_color c w))" ic]
    by (simp add: r_sc) (simp add: wrapper_setter_defs)
  have f3: \<open>sublist ('' fill="'' @ c' @ ''"'')
      (IconWrapper_render (IconWrapper_fill c' (IconWrapper_color c w)))\<close>
    using toSVG_fill [of "IconWrapper_config (IconWrapper_fill c' (IconWrapper_color c w))" ic]
    by (simp add: r_fc) (simp add: wrapper_setter_defs)
  have s3: \<open>sublist ('' stroke="'' @ c @ ''"'')
      (IconWrapper_render (IconWrapper_fill c' (IconWrapper_color c w)))\<close>
    using toSVG_stroke [of "IconWrapper_config (IconWrapper_fill c' (IconWrapper_color c w))" ic]
    by (simp add: r_fc) (simp add: wrapper_setter_defs)
  have same: "IconWrapper_size s w
        = w\<lparr>IconWrapper_config := (IconWrapper_config w)\<lparr>width := s, height := s\<rparr>\<rparr>
     \<and> IconWrapper_size_wh a b w
        = w\<lparr>IconWrapper_config := (IconWrapper_config w)\<lparr>width := a, height := b\<rparr>\<rparr>
     \<and> IconWrapper_stroke c w
        = w\<lparr>IconWrapper_config := (IconWrapper_config w)\<lparr>stroke := c\<rparr>\<rparr>
     \<and> IconWrapper_strokeWidth a w
        = w\<lparr>IconWrapper_config := (IconWrapper_config w)\<lparr>strokeWidth := a\<rparr>\<rparr>
     \<and> IconWrapper_fill c w
        = w\<lparr>IconWrapper_config := (IconWrapper_config w)\<lparr>fill := c\<rparr>\<rparr>
     \<and> IconWrapper_className c w
        = w\<lparr>IconWrapper_config := (IconWrapper_config w)\<lparr>className := c\<rparr>\<rparr>
     \<and> IconWrapper_style c w
        = w\<lparr>IconWrapper_config := (IconWrapper_config w)\<lparr>style := c\<rparr>\<rparr>
     \<and> IconWrapper_color c w
        = w\<lparr>IconWrapper_config := (IconWrapper_config w)\<lparr>color := c, stroke := c, fill := c\<rparr>\<rparr>"
    by (simp add: wrapper_setter_defs)
  have frame: "IconWrapper_icon (IconWrapper_size s w) = Some ic
     \<and> IconWrapper_icon (IconWrapper_size_wh a b w) = Some ic
     \<and> IconWrapper_icon (IconWrapper_stroke c w) = Some ic
     \<and> IconWrapper_icon (IconWrapper_strokeWidth a w) = Some ic
     \<and> IconWrapper_icon (IconWrapper_fill c w) = Some ic
     \<and> IconWrapper_icon (IconWrapper_className c w) = Some ic
     \<and> IconWrapper_icon (IconWrapper_style c w) = Some ic
     \<and> IconWrapper_icon (IconWrapper_color c w) = Some ic"
    using assms by (simp add: wrapper_setter_defs)
  have over: "IconWrapper_config (IconWrapper_stroke c' (IconWrapper_color c w))
         = (IconWrapper_config (IconWrapper_color c w))\<lparr>stroke := c'\<rparr>
     \<and> IconWrapper_config (IconWrapper_fill c' (IconWrapper_color c w))
         = (IconWrapper_config (IconWrapper_color c w))\<lparr>fill := c'\<rparr>"
    by (simp add: wrapper_setter_defs)
  from r_size size_cfg have r0: "IconWrapper_render (IconWrapper_size s w)
        = Icon_toSVG ic ((IconWrapper_config w)\<lparr>width := s, height := s\<rparr>)"
    by simp
  from r_color color_cfg have r1: "IconWrapper_render (IconWrapper_color c w)
        = Icon_toSVG ic ((IconWrapper_config w)\<lparr>color := c, stroke := c, fill := c\<rparr>)"
    by simp
  note readback = read_int_ostream_int [of s]
  from r0 w1 h1 readback r1 s1 f1 same frame over s2 f2 f3 s3 show ?thesis by blast
qed

theorem fluent_size_and_color_witness:
  \<open>IconWrapper_icon \<lparr>IconWrapper_icon = Some (Icon_Icon ''home'' ''<path d="M3 9l9-7"/>''),
                     IconWrapper_config = IconConfig_default\<rparr>
     = Some (Icon_Icon ''home'' ''<path d="M3 9l9-7"/>'')
   \<and> IconWrapper_render (IconWrapper_size 48
           \<lparr>IconWrapper_icon = Some (Icon_Icon ''home'' ''<path d="M3 9l9-7"/>''),
            IconWrapper_config = IconConfig_default\<rparr>)
     = ''<svg xmlns="http://www.w3.org/2000/svg" width="48" height="48" viewBox="0 0 24 24" fill="none" stroke="currentColor" stroke-width="2" stroke-linecap="round" stroke-linejoin="round"><path d="M3 9l9-7"/></svg>''
   \<and> sublist '' width="48"''
        (IconWrapper_render (IconWrapper_size 48
           \<lparr>IconWrapper_icon = Some (Icon_Icon ''home'' ''<path d="M3 9l9-7"/>''),
            IconWrapper_config = IconConfig_default\<rparr>))
   \<and> sublist '' height="48"''
        (IconWrapper_render (IconWrapper_size 48
           \<lparr>IconWrapper_icon = Some (Icon_Icon ''home'' ''<path d="M3 9l9-7"/>''),
            IconWrapper_config = IconConfig_default\<rparr>))
   \<and> IconWrapper_render (IconWrapper_color ''#ff0000''
           \<lparr>IconWrapper_icon = Some (Icon_Icon ''home'' ''<path d="M3 9l9-7"/>''),
            IconWrapper_config = IconConfig_default\<rparr>)
     = ''<svg xmlns="http://www.w3.org/2000/svg" width="24" height="24" viewBox="0 0 24 24" fill="#ff0000" stroke="#ff0000" stroke-width="2" stroke-linecap="round" stroke-linejoin="round"><path d="M3 9l9-7"/></svg>''
   \<and> sublist '' stroke="#ff0000"''
        (IconWrapper_render (IconWrapper_color ''#ff0000''
           \<lparr>IconWrapper_icon = Some (Icon_Icon ''home'' ''<path d="M3 9l9-7"/>''),
            IconWrapper_config = IconConfig_default\<rparr>))
   \<and> sublist '' fill="#ff0000"''
        (IconWrapper_render (IconWrapper_color ''#ff0000''
           \<lparr>IconWrapper_icon = Some (Icon_Icon ''home'' ''<path d="M3 9l9-7"/>''),
            IconWrapper_config = IconConfig_default\<rparr>))
   \<and> sublist '' fill="#ff0000"''
        (IconWrapper_render (IconWrapper_stroke ''#00ff00'' (IconWrapper_color ''#ff0000''
           \<lparr>IconWrapper_icon = Some (Icon_Icon ''home'' ''<path d="M3 9l9-7"/>''),
            IconWrapper_config = IconConfig_default\<rparr>)))
   \<and> sublist '' stroke="#00ff00"''
        (IconWrapper_render (IconWrapper_stroke ''#00ff00'' (IconWrapper_color ''#ff0000''
           \<lparr>IconWrapper_icon = Some (Icon_Icon ''home'' ''<path d="M3 9l9-7"/>''),
            IconWrapper_config = IconConfig_default\<rparr>)))\<close>
proof -
  let ?ic = \<open>Icon_Icon ''home'' ''<path d="M3 9l9-7"/>''\<close>
  let ?w = "\<lparr>IconWrapper_icon = Some ?ic, IconWrapper_config = IconConfig_default\<rparr>"
  have bound: "IconWrapper_icon ?w = Some ?ic" by simp
  have dec: "ostream_int 48 = ''48''" "ostream_int 24 = ''24''" "ostream_int 2 = ''2''"
    by (simp_all add: ostream_int_examples)
  note t = fluent_size_and_color [OF bound, of 48 "''#ff0000''" _ _ "''#00ff00''"]
  from t have "IconWrapper_render (IconWrapper_size 48 ?w)
      = Icon_toSVG ?ic ((IconWrapper_config ?w)\<lparr>width := 48, height := 48\<rparr>)"
    by blast
  then have r48: \<open>IconWrapper_render (IconWrapper_size 48 ?w)
     = ''<svg xmlns="http://www.w3.org/2000/svg" width="48" height="48" viewBox="0 0 24 24" fill="none" stroke="currentColor" stroke-width="2" stroke-linecap="round" stroke-linejoin="round"><path d="M3 9l9-7"/></svg>''\<close>
    by (simp add: Icon_toSVG_def Icon_buildSVG_form IconConfig_default_def Icon_Icon_def dec)
  from t have "IconWrapper_render (IconWrapper_color ''#ff0000'' ?w)
      = Icon_toSVG ?ic ((IconWrapper_config ?w)
          \<lparr>color := ''#ff0000'', stroke := ''#ff0000'', fill := ''#ff0000''\<rparr>)"
    by blast
  then have rred: \<open>IconWrapper_render (IconWrapper_color ''#ff0000'' ?w)
     = ''<svg xmlns="http://www.w3.org/2000/svg" width="24" height="24" viewBox="0 0 24 24" fill="#ff0000" stroke="#ff0000" stroke-width="2" stroke-linecap="round" stroke-linejoin="round"><path d="M3 9l9-7"/></svg>''\<close>
    by (simp add: Icon_toSVG_def Icon_buildSVG_form IconConfig_default_def Icon_Icon_def dec)
  from t have \<open>sublist ('' width="'' @ ostream_int 48 @ ''"'')
      (IconWrapper_render (IconWrapper_size 48 ?w))\<close>
    by blast
  then have a: \<open>sublist '' width="48"'' (IconWrapper_render (IconWrapper_size 48 ?w))\<close>
    by (simp add: dec)
  from t have \<open>sublist ('' height="'' @ ostream_int 48 @ ''"'')
      (IconWrapper_render (IconWrapper_size 48 ?w))\<close>
    by blast
  then have b: \<open>sublist '' height="48"'' (IconWrapper_render (IconWrapper_size 48 ?w))\<close>
    by (simp add: dec)
  from t have \<open>sublist ('' stroke="'' @ ''#ff0000'' @ ''"'')
      (IconWrapper_render (IconWrapper_color ''#ff0000'' ?w))\<close>
    by blast
  then have c: \<open>sublist '' stroke="#ff0000"''
      (IconWrapper_render (IconWrapper_color ''#ff0000'' ?w))\<close>
    by simp
  from t have \<open>sublist ('' fill="'' @ ''#ff0000'' @ ''"'')
      (IconWrapper_render (IconWrapper_color ''#ff0000'' ?w))\<close>
    by blast
  then have d: \<open>sublist '' fill="#ff0000"''
      (IconWrapper_render (IconWrapper_color ''#ff0000'' ?w))\<close>
    by simp
  from t have \<open>sublist ('' fill="'' @ ''#ff0000'' @ ''"'')
      (IconWrapper_render (IconWrapper_stroke ''#00ff00'' (IconWrapper_color ''#ff0000'' ?w)))\<close>
    by blast
  then have e: \<open>sublist '' fill="#ff0000"''
      (IconWrapper_render (IconWrapper_stroke ''#00ff00'' (IconWrapper_color ''#ff0000'' ?w)))\<close>
    by simp
  from t have \<open>sublist ('' stroke="'' @ ''#00ff00'' @ ''"'')
      (IconWrapper_render (IconWrapper_stroke ''#00ff00'' (IconWrapper_color ''#ff0000'' ?w)))\<close>
    by blast
  then have f: \<open>sublist '' stroke="#00ff00"''
      (IconWrapper_render (IconWrapper_stroke ''#00ff00'' (IconWrapper_color ''#ff0000'' ?w)))\<close>
    by simp
  from bound r48 a b rred c d e f show ?thesis by blast
qed

text \<open>
  C9. For every wrapper and all integers: \<open>size(s)\<close> and \<open>size(w, h)\<close> assign the
  width and height of the wrapper's configuration and nothing else, so the convenience
  field \<open>size\<close> keeps its value. Hence after \<open>size(s)\<close> with \<open>s\<close> different from the
  \<open>size\<close> field, \<open>getConfig().size\<close> differs from \<open>getConfig().width\<close>, whereas
  \<open>IconConfig::setSize(s)\<close> leaves \<open>size\<close>, \<open>width\<close> and \<open>height\<close> all equal to \<open>s\<close>.
\<close>

theorem size_setter_leaves_size_field:
  "IconWrapper_getConfig (IconWrapper_size s w)
     = (IconWrapper_getConfig w)\<lparr>width := s, height := s\<rparr>
   \<and> IconWrapper_getConfig (IconWrapper_size_wh a b w)
     = (IconWrapper_getConfig w)\<lparr>width := a, height := b\<rparr>
   \<and> IconWrapper_icon (IconWrapper_size s w) = IconWrapper_icon w
   \<and> IconWrapper_icon (IconWrapper_size_wh a b w) = IconWrapper_icon w
   \<and> size' (IconWrapper_getConfig (IconWrapper_size s w)) = size' (IconWrapper_getConfig w)
   \<and> size' (IconWrapper_getConfig (IconWrapper_size_wh a b w))
     = size' (IconWrapper_getConfig w)
   \<and> (s \<noteq> size' (IconWrapper_getConfig w)
      \<longrightarrow> size' (IconWrapper_getConfig (IconWrapper_size s w))
          \<noteq> width (IconWrapper_getConfig (IconWrapper_size s w)))
   \<and> size' (setSize s cfg) = s \<and> width (setSize s cfg) = s \<and> height (setSize s cfg) = s"
  by (simp add: IconWrapper_getConfig_def IconWrapper_size_def IconWrapper_size_wh_def
      setSize_def)

theorem size_setter_leaves_size_field_witness:
  \<open>(48 :: cint) \<noteq> size' (IconWrapper_getConfig
        \<lparr>IconWrapper_icon = Some (Icon_Icon ''home'' ''<path d="M3 9l9-7"/>''),
         IconWrapper_config = IconConfig_default\<rparr>)
   \<and> size' (IconWrapper_getConfig (IconWrapper_size 48
        \<lparr>IconWrapper_icon = Some (Icon_Icon ''home'' ''<path d="M3 9l9-7"/>''),
         IconWrapper_config = IconConfig_default\<rparr>)) = 24
   \<and> width (IconWrapper_getConfig (IconWrapper_size 48
        \<lparr>IconWrapper_icon = Some (Icon_Icon ''home'' ''<path d="M3 9l9-7"/>''),
         IconWrapper_config = IconConfig_default\<rparr>)) = 48
   \<and> size' (IconWrapper_getConfig (IconWrapper_size 48
        \<lparr>IconWrapper_icon = Some (Icon_Icon ''home'' ''<path d="M3 9l9-7"/>''),
         IconWrapper_config = IconConfig_default\<rparr>))
      \<noteq> width (IconWrapper_getConfig (IconWrapper_size 48
        \<lparr>IconWrapper_icon = Some (Icon_Icon ''home'' ''<path d="M3 9l9-7"/>''),
         IconWrapper_config = IconConfig_default\<rparr>))\<close>
proof -
  let ?w = \<open>\<lparr>IconWrapper_icon = Some (Icon_Icon ''home'' ''<path d="M3 9l9-7"/>''),
         IconWrapper_config = IconConfig_default\<rparr>\<close>
  have old: "size' (IconWrapper_getConfig ?w) = 24"
    by (simp add: IconWrapper_getConfig_def IconConfig_default_def)
  then have differs: "(48 :: cint) \<noteq> size' (IconWrapper_getConfig ?w)"
    by simp
  note t = size_setter_leaves_size_field [of 48 ?w]
  from t differs
  have a: "size' (IconWrapper_getConfig (IconWrapper_size 48 ?w))
      \<noteq> width (IconWrapper_getConfig (IconWrapper_size 48 ?w))"
    by blast
  from t have "size' (IconWrapper_getConfig (IconWrapper_size 48 ?w))
      = size' (IconWrapper_getConfig ?w)"
    by blast
  with old have b: "size' (IconWrapper_getConfig (IconWrapper_size 48 ?w)) = 24"
    by simp
  from t have "IconWrapper_getConfig (IconWrapper_size 48 ?w)
      = (IconWrapper_getConfig ?w)\<lparr>width := 48, height := 48\<rparr>"
    by blast
  then have c: "width (IconWrapper_getConfig (IconWrapper_size 48 ?w)) = 48"
    by simp
  from differs a b c show ?thesis by blast
qed

section \<open>Themes\<close>

lemma applyTheme_stroke:
  "stroke (IconTheme_applyTheme theme base)
     = (if stroke base = ''currentColor''
        then (if stroke (IconTheme_themeConfig theme) = [] then ''currentColor''
              else stroke (IconTheme_themeConfig theme))
        else stroke base)"
  by (simp add: IconTheme_applyTheme_def Let_def)

lemma applyTheme_fill:
  "fill (IconTheme_applyTheme theme base)
     = (if fill base = ''none''
        then (if fill (IconTheme_themeConfig theme) = [] then ''none''
              else fill (IconTheme_themeConfig theme))
        else fill base)"
  by (simp add: IconTheme_applyTheme_def Let_def)

lemma applyTheme_strokeWidth:
  "strokeWidth (IconTheme_applyTheme theme base)
     = (if strokeWidth base = 2 then strokeWidth (IconTheme_themeConfig theme)
        else strokeWidth base)"
  by (simp add: IconTheme_applyTheme_def Let_def)

lemma applyTheme_width:
  "width (IconTheme_applyTheme theme base)
     = (if width base = 24 then width (IconTheme_themeConfig theme) else width base)"
  by (simp add: IconTheme_applyTheme_def Let_def)

lemma applyTheme_height:
  "height (IconTheme_applyTheme theme base)
     = (if height base = 24 then height (IconTheme_themeConfig theme) else height base)"
  by (simp add: IconTheme_applyTheme_def Let_def)

lemma applyTheme_frame:
  "className (IconTheme_applyTheme theme base) = className base"
  "style (IconTheme_applyTheme theme base) = style base"
  "strokeLinecap (IconTheme_applyTheme theme base) = strokeLinecap base"
  "strokeLinejoin (IconTheme_applyTheme theme base) = strokeLinejoin base"
  "size' (IconTheme_applyTheme theme base) = size' base"
  "color (IconTheme_applyTheme theme base) = color base"
  by (simp_all add: IconTheme_applyTheme_def Let_def)

lemma dark_themeConfig:
  "IconTheme_themeConfig IconTheme_dark = IconConfig_default\<lparr>stroke := ''#ffffff''\<rparr>"
  by (simp add: IconTheme_dark_def IconTheme_IconTheme_def IconTheme_setDefaultStroke_def
      IconTheme_setDefaultFill_def IconTheme_setDefaultStrokeWidth_def
      IconTheme_setDefaultSize_def setSize_def IconConfig_default_def)

text \<open>
  C1, as stated, fails for a theme whose stored stroke is the empty string: the stored
  value differs from the global default \<open>currentColor\<close> and the base has the default,
  yet the result keeps \<open>currentColor\<close> and is not the stored value.
\<close>

theorem applyTheme_empty_stroke_counterexample:
  "stroke IconConfig_default = ''currentColor''
   \<and> stroke (IconTheme_getConfig (IconTheme_setDefaultStroke [] (IconTheme_IconTheme ''plain'')))
       \<noteq> ''currentColor''
   \<and> stroke (IconTheme_applyTheme
        (IconTheme_setDefaultStroke [] (IconTheme_IconTheme ''plain'')) IconConfig_default)
       \<noteq> stroke (IconTheme_getConfig
            (IconTheme_setDefaultStroke [] (IconTheme_IconTheme ''plain'')))
   \<and> stroke (IconTheme_applyTheme
        (IconTheme_setDefaultStroke [] (IconTheme_IconTheme ''plain'')) IconConfig_default)
       = ''currentColor''"
  by (simp add: applyTheme_stroke IconTheme_setDefaultStroke_def IconTheme_IconTheme_def
      IconTheme_getConfig_def IconConfig_default_def)

text \<open>
  C1, amended. For every theme and base configuration, \<open>applyTheme(base)\<close> is the base
  with: \<open>stroke\<close> (and likewise \<open>fill\<close>) replaced by the theme's stored value exactly
  when the base value is the global default \<open>currentColor\<close> (\<open>none\<close>) and the stored
  value is neither that default nor the empty string, and left at the base value
  otherwise; \<open>strokeWidth\<close>, \<open>width\<close> and \<open>height\<close> replaced by the theme's stored
  value exactly when the base value is the global default (2, 24, 24) and the stored
  value is not, and left at the base value otherwise; \<open>className\<close>, \<open>style\<close>,
  \<open>strokeLinecap\<close>, \<open>strokeLinejoin\<close> (and \<open>size\<close>, \<open>color\<close>) as in the base. In
  particular \<open>IconTheme::dark().applyTheme(IconConfig{})\<close> has stroke \<open>#ffffff\<close>, fill
  \<open>none\<close>, strokeWidth 2, width 24 and height 24.
\<close>

theorem applyTheme_merge:
  "stroke (IconTheme_applyTheme theme base)
     = (if stroke base = ''currentColor''
           \<and> stroke (IconTheme_getConfig theme) \<noteq> ''currentColor''
           \<and> stroke (IconTheme_getConfig theme) \<noteq> []
        then stroke (IconTheme_getConfig theme) else stroke base)
   \<and> fill (IconTheme_applyTheme theme base)
     = (if fill base = ''none''
           \<and> fill (IconTheme_getConfig theme) \<noteq> ''none''
           \<and> fill (IconTheme_getConfig theme) \<noteq> []
        then fill (IconTheme_getConfig theme) else fill base)
   \<and> strokeWidth (IconTheme_applyTheme theme base)
     = (if strokeWidth base = 2 \<and> strokeWidth (IconTheme_getConfig theme) \<noteq> 2
        then strokeWidth (IconTheme_getConfig theme) else strokeWidth base)
   \<and> width (IconTheme_applyTheme theme base)
     = (if width base = 24 \<and> width (IconTheme_getConfig theme) \<noteq> 24
        then width (IconTheme_getConfig theme) else width base)
   \<and> height (IconTheme_applyTheme theme base)
     = (if height base = 24 \<and> height (IconTheme_getConfig theme) \<noteq> 24
        then height (IconTheme_getConfig theme) else height base)
   \<and> className (IconTheme_applyTheme theme base) = className base
   \<and> style (IconTheme_applyTheme theme base) = style base
   \<and> strokeLinecap (IconTheme_applyTheme theme base) = strokeLinecap base
   \<and> strokeLinejoin (IconTheme_applyTheme theme base) = strokeLinejoin base
   \<and> size' (IconTheme_applyTheme theme base) = size' base
   \<and> color (IconTheme_applyTheme theme base) = color base
   \<and> stroke (IconTheme_applyTheme IconTheme_dark IconConfig_default) = ''#ffffff''
   \<and> fill (IconTheme_applyTheme IconTheme_dark IconConfig_default) = ''none''
   \<and> strokeWidth (IconTheme_applyTheme IconTheme_dark IconConfig_default) = 2
   \<and> width (IconTheme_applyTheme IconTheme_dark IconConfig_default) = 24
   \<and> height (IconTheme_applyTheme IconTheme_dark IconConfig_default) = 24"
proof -
  have strings: "stroke (IconTheme_applyTheme theme base)
     = (if stroke base = ''currentColor''
           \<and> stroke (IconTheme_getConfig theme) \<noteq> ''currentColor''
           \<and> stroke (IconTheme_getConfig theme) \<noteq> []
        then stroke (IconTheme_getConfig theme) else stroke base)
   \<and> fill (IconTheme_applyTheme theme base)
     = (if fill base = ''none''
           \<and> fill (IconTheme_getConfig theme) \<noteq> ''none''
           \<and> fill (IconTheme_getConfig theme) \<noteq> []
        then fill (IconTheme_getConfig theme) else fill base)"
    by (simp add: applyTheme_stroke applyTheme_fill IconTheme_getConfig_def)
  have ints: "strokeWidth (IconTheme_applyTheme theme base)
     = (if strokeWidth base = 2 \<and> strokeWidth (IconTheme_getConfig theme) \<noteq> 2
        then strokeWidth (IconTheme_getConfig theme) else strokeWidth base)
   \<and> width (IconTheme_applyTheme theme base)
     = (if width base = 24 \<and> width (IconTheme_getConfig theme) \<noteq> 24
        then width (IconTheme_getConfig theme) else width base)
   \<and> height (IconTheme_applyTheme theme base)
     = (if height base = 24 \<and> height (IconTheme_getConfig theme) \<noteq> 24
        then height (IconTheme_getConfig theme) else height base)"
    by (simp add: applyTheme_strokeWidth applyTheme_width applyTheme_height
        IconTheme_getConfig_def)
  have dark: "stroke (IconTheme_applyTheme IconTheme_dark IconConfig_default) = ''#ffffff''
   \<and> fill (IconTheme_applyTheme IconTheme_dark IconConfig_default) = ''none''
   \<and> strokeWidth (IconTheme_applyTheme IconTheme_dark IconConfig_default) = 2
   \<and> width (IconTheme_applyTheme IconTheme_dark IconConfig_default) = 24
   \<and> height (IconTheme_applyTheme IconTheme_dark IconConfig_default) = 24"
    by (simp add: applyTheme_stroke applyTheme_fill applyTheme_strokeWidth applyTheme_width
        applyTheme_height dark_themeConfig)
      (simp add: IconConfig_default_def)
  from strings ints applyTheme_frame [of theme base] dark show ?thesis by blast
qed

end
